theory Spec2Isabelle
  imports Complex_Main
begin

section \<open>The solar-system viewer: data model\<close>

text \<open>
  The repository holds three revisions of one browser program, each a single
  \<^verbatim>\<open>DOMContentLoaded\<close> handler around a handful of module-level variables:
  \<^item> \<open>RevA\<close>: \<^verbatim>\<open>src/main.js\<close>, lines 1 to 196 (coloured spheres, AR only);
  \<^item> \<open>RevB\<close>: \<^verbatim>\<open>src/main.js\<close>, lines 196 to 457 (textures, desktop view and AR);
  \<^item> \<open>RevC\<close>: \<^verbatim>\<open>src/unnamed/part_000\<close> (textures, desktop view and AR).
  Functions that differ between the revisions take the revision as their first argument.
\<close>

datatype revision = RevA | RevB | RevC

subsection \<open>Numbers\<close>

text \<open>
  A JavaScript number is an IEEE 754 double; it is modelled by the real number it
  denotes. The render loops do arithmetic on the rotation angles, and every such
  operation rounds its exact result to the nearest double, ties to the even significand:
  \<open>ulp x\<close> is the spacing of the doubles around \<open>x\<close> (52 fraction bits, subnormals below
  \<open>2 powr -1022\<close>), and \<open>to_double\<close> rounds to a multiple of it. A literal that
  takes part in such arithmetic is the double nearest to it; a literal that is only
  stored is kept as written. Magnitudes beyond the largest double, where JavaScript
  yields \<^verbatim>\<open>Infinity\<close>, are rounded in the same way.
\<close>

definition round_half_even :: "real \<Rightarrow> int" where
  "round_half_even r =
    (let n = \<lfloor>r\<rfloor>; d = r - of_int n
     in if d < 1 / 2 then n else if 1 / 2 < d then n + 1 else if even n then n else n + 1)"

definition ulp :: "real \<Rightarrow> real" where
  "ulp x = 2 powr of_int (max \<lfloor>log 2 \<bar>x\<bar>\<rfloor> (- 1022) - 52)"

definition to_double :: "real \<Rightarrow> real" where
  "to_double x = (if x = 0 then 0 else of_int (round_half_even (x / ulp x)) * ulp x)"

definition double_add :: "real \<Rightarrow> real \<Rightarrow> real" where
  "double_add a b = to_double (a + b)"

definition double_mul :: "real \<Rightarrow> real \<Rightarrow> real" where
  "double_mul a b = to_double (a * b)"

type_synonym vector3 = "real \<times> real \<times> real"

text \<open>
  Meshes, pivots and the solar-system group are three.js \<^verbatim>\<open>Object3D\<close>s. Each record
  holds the fields of its object that the program reads or writes; a new object has
  position \<open>(0, 0, 0)\<close>, scale \<open>(1, 1, 1)\<close> and rotation \<open>0\<close>.
\<close>

datatype visual = Color nat | Texture string

record config =
  name :: string
  radius :: real
  distance :: real
  visual :: visual
  speed :: real

record user_data =
  ud_name :: string
  ud_distance :: real
  ud_speed :: real
  angle :: real

datatype material = MeshBasicMaterial visual | MeshStandardMaterial visual

record mesh =
  mesh_position :: vector3
  mesh_rotation_y :: real
  material :: material
  userData :: user_data

text \<open>A pivot is a \<^verbatim>\<open>THREE.Group\<close> whose only child, \<^verbatim>\<open>children[0]\<close>, is the planet's mesh.\<close>

record pivot =
  pivot_rotation_y :: real
  child0 :: mesh

text \<open>
  The children of the solar-system group. A pivot is shared with the array \<^verbatim>\<open>planets\<close>,
  through which the render loops rotate it, so the group refers to it by its index there.
  Every \<^verbatim>\<open>new THREE.Group()\<close> the builder makes is a distinct object; \<open>gid\<close> tells them apart.
\<close>

datatype child = PointLight | Body mesh | PivotAt nat

record group =
  position :: vector3
  scale :: vector3
  rotation_y :: real
  gid :: nat
  children :: "child list"

text \<open>
  The configured bodies. The speeds are added to the rotation angles on every frame, so
  each is the double its literal denotes; the other literals are only stored.
\<close>

definition planetConfig :: "revision \<Rightarrow> config list" where
  "planetConfig rv =
    (if rv = RevA then
      [\<lparr>name = ''Sun'', radius = 0.25, distance = 0, visual = Color 0xFFFF00, speed = 0\<rparr>,
       \<lparr>name = ''Mercury'', radius = 0.03, distance = 0.4, visual = Color 0xAAAAAA, speed = to_double 0.02\<rparr>,
       \<lparr>name = ''Venus'', radius = 0.05, distance = 0.6, visual = Color 0xDD9900, speed = to_double 0.015\<rparr>,
       \<lparr>name = ''Earth'', radius = 0.05, distance = 0.8, visual = Color 0x0000FF, speed = to_double 0.01\<rparr>,
       \<lparr>name = ''Mars'', radius = 0.04, distance = 1.0, visual = Color 0xFF4400, speed = to_double 0.008\<rparr>]
     else
      [\<lparr>name = ''Sun'', radius = 0.5, distance = 0, visual = Texture ''sun.jpg'', speed = 0\<rparr>,
       \<lparr>name = ''Mercury'', radius = 0.05, distance = 1.0, visual = Texture ''mercury.jpg'', speed = to_double 0.02\<rparr>,
       \<lparr>name = ''Venus'', radius = 0.08, distance = 1.5, visual = Texture ''venus.jpg'', speed = to_double 0.015\<rparr>,
       \<lparr>name = ''Earth'', radius = 0.09, distance = 2.0, visual = Texture ''earth.jpg'', speed = to_double 0.01\<rparr>,
       \<lparr>name = ''Mars'', radius = 0.06, distance = 2.5, visual = Texture ''mars.jpg'', speed = to_double 0.008\<rparr>,
       \<lparr>name = ''Jupiter'', radius = 0.20, distance = 3.5, visual = Texture ''jupiter.jpg'', speed = to_double 0.005\<rparr>,
       \<lparr>name = ''Saturn'', radius = 0.18, distance = 4.5, visual = Texture ''saturn.jpg'', speed = to_double 0.004\<rparr>,
       \<lparr>name = ''Uranus'', radius = 0.12, distance = 5.5, visual = Texture ''uranus.jpg'', speed = to_double 0.003\<rparr>,
       \<lparr>name = ''Neptune'', radius = 0.11, distance = 6.5, visual = Texture ''neptune.jpg'', speed = to_double 0.002\<rparr>])"

subsection \<open>The scene builder\<close>

text \<open>
  \<^verbatim>\<open>Math.random()\<close> is a stream of numbers: the head is the next draw. The loop body of
  \<^verbatim>\<open>planetConfig.forEach\<close> works on the group under construction, the array
  \<^verbatim>\<open>planets\<close> and the random stream.
\<close>

type_synonym random_source = "nat \<Rightarrow> real"

type_synonym builder = "group \<times> pivot list \<times> random_source"

definition new_mesh :: "config \<Rightarrow> real \<Rightarrow> mesh" where
  "new_mesh c r =
    \<lparr>mesh_position = (0, 0, 0), mesh_rotation_y = 0,
     material = (if name c = ''Sun'' then MeshBasicMaterial (visual c)
                 else MeshStandardMaterial (visual c)),
     userData = \<lparr>ud_name = name c, ud_distance = distance c, ud_speed = speed c,
                 angle = r * pi * 2\<rparr>\<rparr>"

definition new_pivot :: "mesh \<Rightarrow> pivot" where
  "new_pivot m = \<lparr>pivot_rotation_y = 0, child0 = m\<rparr>"

definition set_position_x :: "real \<Rightarrow> mesh \<Rightarrow> mesh" where
  "set_position_x d m =
    (case mesh_position m of (x, y, z) \<Rightarrow> m\<lparr>mesh_position := (d, y, z)\<rparr>)"

definition group_add :: "child \<Rightarrow> group \<Rightarrow> group" where
  "group_add c g = g\<lparr>children := children g @ [c]\<rparr>"

definition add_body :: "revision \<Rightarrow> builder \<Rightarrow> config \<Rightarrow> builder" where
  "add_body rv b c =
    (case b of (g, ps, rnd) \<Rightarrow>
      let g1 = (if name c = ''Sun'' \<and> rv \<noteq> RevA then group_add PointLight g else g);
          m = new_mesh c (rnd 0);
          rnd' = (\<lambda>i. rnd (Suc i))
      in if name c \<noteq> ''Sun''
         then (group_add (PivotAt (length ps)) g1,
               ps @ [new_pivot (set_position_x (distance c) m)], rnd')
         else (group_add (Body m) g1, ps, rnd'))"

definition new_group :: "nat \<Rightarrow> group" where
  "new_group n =
    \<lparr>position = (0, 0, 0), scale = (1, 1, 1), rotation_y = 0, gid = n, children = []\<rparr>"

definition build_bodies ::
  "revision \<Rightarrow> nat \<Rightarrow> pivot list \<Rightarrow> random_source \<Rightarrow> builder" where
  "build_bodies rv n ps rnd =
    (case foldl (add_body rv) (new_group n, ps, rnd) (planetConfig rv) of
      (g, ps', rnd') \<Rightarrow>
        ((if rv = RevA then group_add PointLight g else g), ps', rnd'))"

text \<open>
  The meshes of the bodies one run of the builder creates: the Sun's, a child of the
  group, and one under each pivot the run appended to \<^verbatim>\<open>planets\<close>.
\<close>

fun body_meshes :: "child list \<Rightarrow> mesh list" where
  "body_meshes [] = []"
| "body_meshes (Body m # cs) = m # body_meshes cs"
| "body_meshes (_ # cs) = body_meshes cs"

definition created_bodies ::
  "revision \<Rightarrow> nat \<Rightarrow> pivot list \<Rightarrow> random_source \<Rightarrow> mesh list" where
  "created_bodies rv n ps rnd =
    (case build_bodies rv n ps rnd of
      (g, ps', rnd') \<Rightarrow> body_meshes (children g) @ map child0 (drop (length ps) ps'))"

subsection \<open>The page: module variables, document and platform\<close>

datatype scene_obj = HemisphereLight | AmbientLight | ReticleObj | GroupObj nat

record reticle_mesh =
  visible :: bool
  matrix :: "real list"

datatype callback = Animate | RenderAR

record webgl_renderer =
  xr_enabled :: bool
  animationLoop :: "callback option"

text \<open>Child nodes of the container: the canvas of a renderer, or the AR button made for it.\<close>

datatype element = Canvas nat | ARButton nat

record orbit_controls =
  minDistance :: real
  maxDistance :: real
  disposed :: bool

text \<open>
  What the program does to the running \<^verbatim>\<open>XRSession\<close>: the request chains for a hit-test
  source it has started, the \<^verbatim>\<open>end\<close> listeners it has added (each a new closure), and
  whether \<^verbatim>\<open>onSelect\<close> is registered for \<^verbatim>\<open>select\<close> (the same function each time, so the
  platform keeps one registration).
\<close>

record xr_session =
  hit_test_requests :: nat
  end_listeners :: nat
  select_listener :: bool

record world =
  scene :: "scene_obj list"
  renderer :: "nat option"
  controls :: "orbit_controls option"
  reticle :: reticle_mesh
  solarSystemGroup :: "group option"
  hitTestSource :: "nat option"
  hitTestSourceRequested :: bool
  planets :: "pivot list"
  renderers :: "webgl_renderer list"
  container :: "element list"
  container_visible :: bool
  overlay_hidden :: bool
  alerts :: "string list"
  session :: "xr_session option"
  groups_made :: nat
  random :: random_source

text \<open>
  The state in which the \<^verbatim>\<open>DOMContentLoaded\<close> handler starts. \<^verbatim>\<open>scene\<close> and \<^verbatim>\<open>reticle\<close> are
  assigned by the initialisers before any code that reads them can run; until then the
  record holds an empty scene and a hidden reticle with the identity matrix.
\<close>

definition identity_matrix :: "real list" where
  "identity_matrix = [1, 0, 0, 0, 0, 1, 0, 0, 0, 0, 1, 0, 0, 0, 0, 1]"

definition blank_page :: "random_source \<Rightarrow> world" where
  "blank_page rnd =
    \<lparr>scene = [], renderer = None, controls = None,
     reticle = \<lparr>visible = False, matrix = identity_matrix\<rparr>,
     solarSystemGroup = None, hitTestSource = None, hitTestSourceRequested = False,
     planets = [], renderers = [], container = [], container_visible = False,
     overlay_hidden = False, alerts = [], session = None, groups_made = 0, random = rnd\<rparr>"

text \<open>
  \<^verbatim>\<open>createSolarSystem\<close> replaces the group and appends the new pivots to \<^verbatim>\<open>planets\<close>.
  Texture loading, and with it the star background that \<open>RevB\<close> skips when its argument
  \<^verbatim>\<open>isAR\<close> is true, is a service of the rendering library and is left out, as are
  the camera, drawing and the resize handler.
\<close>

definition createSolarSystem :: "revision \<Rightarrow> world \<Rightarrow> world" where
  "createSolarSystem rv w =
    (case build_bodies rv (groups_made w) (planets w) (random w) of
      (g, ps, rnd) \<Rightarrow>
        w\<lparr>solarSystemGroup := Some g, planets := ps, random := rnd,
          groups_made := Suc (groups_made w)\<rparr>)"

text \<open>
  \<^verbatim>\<open>Object3D.add\<close> detaches the object from its parent before appending it, so a scene
  holds an object once.
\<close>

definition scene_add :: "scene_obj \<Rightarrow> scene_obj list \<Rightarrow> scene_obj list" where
  "scene_add x cs = remove1 x cs @ [x]"

definition setAnimationLoop :: "nat \<Rightarrow> callback option \<Rightarrow> world \<Rightarrow> world" where
  "setAnimationLoop rid cb w =
    (if rid < length (renderers w)
     then w\<lparr>renderers := (renderers w)[rid := (renderers w ! rid)\<lparr>animationLoop := cb\<rparr>]\<rparr>
     else w)"

text \<open>\<^verbatim>\<open>new THREE.WebGLRenderer\<close> followed by \<^verbatim>\<open>container.appendChild(renderer.domElement)\<close>.\<close>

definition new_renderer :: "bool \<Rightarrow> world \<Rightarrow> world" where
  "new_renderer xr w =
    (let rid = length (renderers w)
     in w\<lparr>renderers := renderers w @ [\<lparr>xr_enabled = xr, animationLoop = None\<rparr>],
          renderer := Some rid,
          container := container w @ [Canvas rid]\<rparr>)"

subsection \<open>Initialising the desktop view and the AR view\<close>

definition init3D :: "revision \<Rightarrow> world \<Rightarrow> world" where
  "init3D rv w =
    (let w1 = w\<lparr>container_visible := True, scene := []\<rparr>;
         w2 = new_renderer False w1;
         w3 = w2\<lparr>scene := scene_add AmbientLight (scene w2)\<rparr>;
         w4 = w3\<lparr>controls := Some \<lparr>minDistance = 2, maxDistance = 30, disposed = False\<rparr>\<rparr>;
         w5 = createSolarSystem rv w4;
         w6 = (if rv = RevB
               then (case solarSystemGroup w5 of
                       None \<Rightarrow> w5
                     | Some g \<Rightarrow> w5\<lparr>scene := scene_add (GroupObj (gid g)) (scene w5)\<rparr>)
               else w5)
     in setAnimationLoop (length (renderers w)) (Some Animate) w6)"

text \<open>
  The teardown that opens \<^verbatim>\<open>initAR\<close> in \<open>RevB\<close> and \<open>RevC\<close>. Reading
  \<^verbatim>\<open>renderer.domElement\<close> of an undefined renderer raises a \<^verbatim>\<open>TypeError\<close>;
  \<^verbatim>\<open>removeChild\<close> of a node that is not a child raises \<^verbatim>\<open>NotFoundError\<close>.
\<close>

datatype failure = TypeError | NotFoundError

definition teardown3D :: "revision \<Rightarrow> world \<Rightarrow> failure + world" where
  "teardown3D rv w =
    (let w1 = (case controls w of
                 None \<Rightarrow> w
               | Some c \<Rightarrow> w\<lparr>controls := Some (c\<lparr>disposed := True\<rparr>)\<rparr>)
     in case renderer w1 of
          None \<Rightarrow> Inl TypeError
        | Some rid \<Rightarrow>
            if Canvas rid \<notin> set (container w1) then Inl NotFoundError
            else
              let w2 = w1\<lparr>container := remove1 (Canvas rid) (container w1)\<rparr>;
                  w3 = setAnimationLoop rid None w2
              in Inr (if rv = RevB then w3\<lparr>planets := []\<rparr> else w3))"

definition add_reticle :: "world \<Rightarrow> world" where
  "add_reticle w =
    w\<lparr>reticle := \<lparr>visible = False, matrix = identity_matrix\<rparr>,
      scene := scene_add ReticleObj (scene w)\<rparr>"

definition add_ar_button :: "world \<Rightarrow> world" where
  "add_ar_button w =
    (case renderer w of
       None \<Rightarrow> w
     | Some rid \<Rightarrow> w\<lparr>container := container w @ [ARButton rid]\<rparr>)"

definition initAR :: "revision \<Rightarrow> world \<Rightarrow> failure + world" where
  "initAR rv w =
    (if rv = RevA then
       (let w1 = createSolarSystem rv w;
            w2 = w1\<lparr>scene := scene_add HemisphereLight []\<rparr>;
            w3 = new_renderer True w2;
            w4 = add_reticle (add_ar_button w3)
        in Inr (setAnimationLoop (length (renderers w)) (Some RenderAR) w4))
     else
       (case teardown3D rv w of
          Inl e \<Rightarrow> Inl e
        | Inr w0 \<Rightarrow>
            let w1 = new_renderer True (w0\<lparr>scene := []\<rparr>);
                w2 = w1\<lparr>scene := scene_add HemisphereLight (scene w1)\<rparr>;
                w3 = createSolarSystem rv w2;
                w4 = add_reticle (add_ar_button w3)
            in Inr (setAnimationLoop (length (renderers w0)) (Some RenderAR) w4)))"

text \<open>What the document shows and what the display drives.\<close>

fun is_canvas :: "element \<Rightarrow> bool" where
  "is_canvas (Canvas _) = True"
| "is_canvas (ARButton _) = False"

definition surfaces_attached :: "world \<Rightarrow> nat" where
  "surfaces_attached w = length (filter is_canvas (container w))"

definition callbacks_registered :: "world \<Rightarrow> nat" where
  "callbacks_registered w = length (filter (\<lambda>r. animationLoop r \<noteq> None) (renderers w))"

subsection \<open>The start button\<close>

text \<open>
  \<^verbatim>\<open>navigator.xr\<close> is either absent or an object whose \<^verbatim>\<open>isSessionSupported\<close> returns a
  promise; \<open>supported\<close> is the answer that promise will later deliver for a mode. The
  handler tests the value of
  \<^verbatim>\<open>navigator.xr && navigator.xr.isSessionSupported('immersive-ar')\<close>, which is
  \<^verbatim>\<open>undefined\<close> or the promise object itself.
\<close>

record xr_system =
  supported :: "string \<Rightarrow> bool"

record navigator =
  xr :: "xr_system option"

datatype js_value = Undefined | PromiseOf bool

fun truthy :: "js_value \<Rightarrow> bool" where
  "truthy Undefined = False"
| "truthy (PromiseOf _) = True"

definition isSessionSupported :: "xr_system \<Rightarrow> string \<Rightarrow> js_value" where
  "isSessionSupported x mode = PromiseOf (supported x mode)"

definition ar_check :: "navigator \<Rightarrow> js_value" where
  "ar_check nav =
    (case xr nav of
       None \<Rightarrow> Undefined
     | Some x \<Rightarrow> isSessionSupported x ''immersive-ar'')"

definition alert :: "string \<Rightarrow> world \<Rightarrow> world" where
  "alert msg w = w\<lparr>alerts := alerts w @ [msg]\<rparr>"

definition fallback_message :: "revision \<Rightarrow> string" where
  "fallback_message rv =
    (case rv of
       RevA \<Rightarrow> ''Your browser or device does not support WebXR Augmented Reality. Please try a modern mobile browser (Chrome/Safari) on an AR-enabled phone.''
     | RevB \<Rightarrow> ''WebXR Augmented Reality not supported. Falling back to interactive 3D view. Please try on an AR-enabled phone using HTTPS.''
     | RevC \<Rightarrow> ''WebXR Augmented Reality not supported. Falling back to interactive 3D view.'')"

definition start_click :: "revision \<Rightarrow> navigator \<Rightarrow> world \<Rightarrow> failure + world" where
  "start_click rv nav w =
    (case rv of
       RevA \<Rightarrow>
         if truthy (ar_check nav) then initAR rv (w\<lparr>overlay_hidden := True\<rparr>)
         else Inr (alert (fallback_message rv) w)
     | RevB \<Rightarrow>
         (let w1 = w\<lparr>overlay_hidden := True, container_visible := True\<rparr>
          in if truthy (ar_check nav) then initAR rv w1
             else Inr (init3D rv (alert (fallback_message rv) w1)))
     | RevC \<Rightarrow>
         if truthy (ar_check nav) then initAR rv (w\<lparr>overlay_hidden := True\<rparr>)
         else Inr (init3D rv ((alert (fallback_message rv) w)\<lparr>overlay_hidden := True\<rparr>)))"

text \<open>The page once the \<^verbatim>\<open>DOMContentLoaded\<close> handler has run: the later revisions start in the desktop view.\<close>

definition page_load :: "revision \<Rightarrow> random_source \<Rightarrow> world" where
  "page_load rv rnd = (if rv = RevA then blank_page rnd else init3D rv (blank_page rnd))"

subsection \<open>The render loops\<close>

text \<open>
  An \<^verbatim>\<open>XRFrame\<close> answers \<^verbatim>\<open>getHitTestResults(source)\<close> with a list of results, nearest
  first. A result answers \<^verbatim>\<open>getPose(referenceSpace)\<close> with a pose or with \<^verbatim>\<open>null\<close>;
  a pose is represented by the entries of its \<^verbatim>\<open>transform.matrix\<close>.
\<close>

record hit_test_result =
  getPose :: "real list option"

record xr_frame =
  getHitTestResults :: "nat \<Rightarrow> hit_test_result list"

text \<open>\<^verbatim>\<open>Matrix4.fromArray\<close> copies sixteen entries; \<^verbatim>\<open>setFromMatrixPosition\<close> reads entries 12 to 14.\<close>

definition fromArray :: "real list \<Rightarrow> real list" where
  "fromArray a = map (\<lambda>i. a ! i) [0..<16]"

definition setFromMatrixPosition :: "real list \<Rightarrow> vector3" where
  "setFromMatrixPosition m = (m ! 12, m ! 13, m ! 14)"

text \<open>The first block of the loop: the request, its \<^verbatim>\<open>end\<close> listener and the flag, in one step.\<close>

definition request_hit_test_source :: "world \<Rightarrow> world" where
  "request_hit_test_source w =
    (case session w of
       None \<Rightarrow> w
     | Some s \<Rightarrow>
         if \<not> hitTestSourceRequested w
         then w\<lparr>session := Some (s\<lparr>hit_test_requests := Suc (hit_test_requests s),
                                   end_listeners := Suc (end_listeners s)\<rparr>),
                hitTestSourceRequested := True\<rparr>
         else w)"

text \<open>
  The second block: the hit test. The code shows the reticle and then reads
  \<^verbatim>\<open>pose.transform.matrix\<close> without a null check, a \<^verbatim>\<open>TypeError\<close> when the result has
  no pose; \<^verbatim>\<open>session.addEventListener\<close> on a null session is a \<^verbatim>\<open>TypeError\<close> too.
\<close>

definition track_reticle :: "xr_frame \<Rightarrow> world \<Rightarrow> failure + world" where
  "track_reticle f w =
    (case hitTestSource w of
       None \<Rightarrow> Inr w
     | Some src \<Rightarrow>
         (case getHitTestResults f src of
            [] \<Rightarrow> Inr (w\<lparr>reticle := (reticle w)\<lparr>visible := False\<rparr>\<rparr>)
          | hit # _ \<Rightarrow>
              let w1 = w\<lparr>reticle := (reticle w)\<lparr>visible := True\<rparr>\<rparr>
              in (case getPose hit of
                    None \<Rightarrow> Inl TypeError
                  | Some m \<Rightarrow>
                      let w2 = w1\<lparr>reticle := (reticle w1)\<lparr>matrix := fromArray m\<rparr>\<rparr>
                      in (case session w2 of
                            None \<Rightarrow> Inl TypeError
                          | Some s \<Rightarrow>
                              Inr (w2\<lparr>session := Some (s\<lparr>select_listener := True\<rparr>)\<rparr>)))))"

definition attached :: "world \<Rightarrow> bool" where
  "attached w =
    (case solarSystemGroup w of
       None \<Rightarrow> False
     | Some g \<Rightarrow> GroupObj (gid g) \<in> set (scene w))"

definition orbit :: "pivot \<Rightarrow> pivot" where
  "orbit p =
    p\<lparr>pivot_rotation_y := double_add (pivot_rotation_y p) (ud_speed (userData (child0 p)))\<rparr>"

definition orbit_and_spin :: "pivot \<Rightarrow> pivot" where
  "orbit_and_spin p =
    (let m = child0 p; u = userData m
     in p\<lparr>pivot_rotation_y := double_add (pivot_rotation_y p) (ud_speed u),
          child0 :=
            m\<lparr>mesh_rotation_y := double_add (mesh_rotation_y m) (double_mul (ud_speed u) 2)\<rparr>\<rparr>)"

definition animate_orbits :: "revision \<Rightarrow> world \<Rightarrow> world" where
  "animate_orbits rv w =
    (if rv = RevA then
       (case solarSystemGroup w of
          None \<Rightarrow> w
        | Some g \<Rightarrow>
            if GroupObj (gid g) \<in> set (scene w)
            then w\<lparr>planets := map orbit (planets w),
                   solarSystemGroup :=
                     Some (g\<lparr>rotation_y := double_add (rotation_y g) (to_double 0.001)\<rparr>)\<rparr>
            else w)
     else w\<lparr>planets := map orbit_and_spin (planets w)\<rparr>)"

text \<open>\<^verbatim>\<open>renderAR\<close>; in \<open>RevA\<close> the function is called \<^verbatim>\<open>render\<close>. Drawing itself is not modelled.\<close>

definition renderAR :: "revision \<Rightarrow> xr_frame option \<Rightarrow> world \<Rightarrow> failure + world" where
  "renderAR rv frame w =
    (case frame of
       None \<Rightarrow> Inr (animate_orbits rv w)
     | Some f \<Rightarrow>
         (case track_reticle f (request_hit_test_source w) of
            Inl e \<Rightarrow> Inl e
          | Inr w1 \<Rightarrow> Inr (animate_orbits rv w1)))"

text \<open>\<^verbatim>\<open>animate\<close>, the desktop loop of \<open>RevB\<close> and \<open>RevC\<close>; \<^verbatim>\<open>controls.update()\<close> needs the controls.\<close>

definition animate :: "revision \<Rightarrow> world \<Rightarrow> failure + world" where
  "animate rv w =
    (case controls w of
       None \<Rightarrow> Inl TypeError
     | Some c \<Rightarrow> Inr (animate_orbits rv w))"

text \<open>One call of an installed loop, and a run of calls, which stops at the first exception.\<close>

definition invoke :: "revision \<Rightarrow> callback \<Rightarrow> xr_frame option \<Rightarrow> world \<Rightarrow> failure + world" where
  "invoke rv cb frame w = (case cb of Animate \<Rightarrow> animate rv w | RenderAR \<Rightarrow> renderAR rv frame w)"


subsection \<open>Placement and the session's events\<close>

definition onSelect :: "revision \<Rightarrow> world \<Rightarrow> failure + world" where
  "onSelect rv w =
    (if visible (reticle w) then
       (case solarSystemGroup w of
          None \<Rightarrow> Inl TypeError
        | Some g \<Rightarrow>
            let g1 = g\<lparr>position := setFromMatrixPosition (matrix (reticle w))\<rparr>;
                g2 = (if rv = RevA then g1 else g1\<lparr>scale := (0.3, 0.3, 0.3)\<rparr>);
                w1 = w\<lparr>solarSystemGroup := Some g2,
                       scene := scene_add (GroupObj (gid g2)) (scene w)\<rparr>;
                w2 = w1\<lparr>reticle := (reticle w1)\<lparr>visible := False\<rparr>\<rparr>
            in if rv = RevB
               then (case session w2 of
                       None \<Rightarrow> Inl TypeError
                     | Some s \<Rightarrow> Inr (w2\<lparr>session := Some (s\<lparr>select_listener := False\<rparr>)\<rparr>))
               else Inr w2)
     else Inr w)"

text \<open>
  A \<^verbatim>\<open>select\<close> event reaches \<^verbatim>\<open>onSelect\<close> when it is registered; the registration is
  \<^verbatim>\<open>{ once: true }\<close>, so the platform removes it before the call.
\<close>

definition select_event :: "revision \<Rightarrow> world \<Rightarrow> failure + world" where
  "select_event rv w =
    (case session w of
       None \<Rightarrow> Inr w
     | Some s \<Rightarrow>
         if select_listener s
         then onSelect rv (w\<lparr>session := Some (s\<lparr>select_listener := False\<rparr>)\<rparr>)
         else Inr w)"

text \<open>The closure given to \<^verbatim>\<open>then\<close> by the request chain, and the \<^verbatim>\<open>end\<close> listener.\<close>

definition source_resolved :: "nat \<Rightarrow> world \<Rightarrow> world" where
  "source_resolved src w = w\<lparr>hitTestSource := Some src\<rparr>"

definition end_listener :: "world \<Rightarrow> world" where
  "end_listener w = w\<lparr>hitTestSourceRequested := False, hitTestSource := None\<rparr>"

definition session_start :: "world \<Rightarrow> world" where
  "session_start w =
    w\<lparr>session := Some \<lparr>hit_test_requests = 0, end_listeners = 0, select_listener = False\<rparr>\<rparr>"

definition session_end :: "world \<Rightarrow> world" where
  "session_end w =
    (case session w of
       None \<Rightarrow> w
     | Some s \<Rightarrow>
         (if 0 < end_listeners s then end_listener w else w)\<lparr>session := None\<rparr>)"

text \<open>What can happen while one session runs, and a run of such events.\<close>

datatype event = XRFrame xr_frame | Select | SourceResolved nat

definition session_step :: "revision \<Rightarrow> event \<Rightarrow> world \<Rightarrow> failure + world" where
  "session_step rv ev w =
    (case ev of
       XRFrame f \<Rightarrow> renderAR rv (Some f) w
     | Select \<Rightarrow> select_event rv w
     | SourceResolved src \<Rightarrow> Inr (source_resolved src w))"

fun run_session :: "revision \<Rightarrow> event list \<Rightarrow> world \<Rightarrow> failure + world" where
  "run_session rv [] w = Inr w"
| "run_session rv (ev # evs) w =
    (case session_step rv ev w of
       Inl e \<Rightarrow> Inl e
     | Inr w' \<Rightarrow> run_session rv evs w')"

definition requests_issued :: "world \<Rightarrow> nat" where
  "requests_issued w = (case session w of None \<Rightarrow> 0 | Some s \<Rightarrow> hit_test_requests s)"

subsection \<open>Observations and scenarios\<close>

text \<open>Where the group stands after a run: its position, its scale and whether the scene holds it.\<close>

definition placement :: "failure + world \<Rightarrow> (vector3 \<times> vector3 \<times> bool) option" where
  "placement r =
    (case r of
       Inl e \<Rightarrow> None
     | Inr w \<Rightarrow>
         (case solarSystemGroup w of
            None \<Rightarrow> None
          | Some g \<Rightarrow> Some (position g, scale g, attached w)))"

text \<open>The orbital angle, the axial angle and the stored phase of each tracked planet after a run.\<close>

definition pivot_angles :: "failure + world \<Rightarrow> (real \<times> real \<times> real) list" where
  "pivot_angles r =
    (case r of
       Inl e \<Rightarrow> []
     | Inr w \<Rightarrow>
         map (\<lambda>p. (pivot_rotation_y p, mesh_rotation_y (child0 p), angle (userData (child0 p))))
           (planets w))"

text \<open>
  The value a number holds after \<open>n\<close> executions of \<^verbatim>\<open>a += s\<close>: \<open>n\<close> double additions, each
  rounded.
\<close>

fun accumulate :: "nat \<Rightarrow> real \<Rightarrow> real \<Rightarrow> real" where
  "accumulate 0 s a = a"
| "accumulate (Suc n) s a = accumulate n s (double_add a s)"


text \<open>
  A visit: the page loads, the visitor presses the start button, an AR session starts
  on the page that results, and the session's events arrive in order.
\<close>

definition ar_visit ::
  "revision \<Rightarrow> navigator \<Rightarrow> random_source \<Rightarrow> event list \<Rightarrow> failure + world" where
  "ar_visit rv nav rnd evs =
    (case start_click rv nav (page_load rv rnd) of
       Inl e \<Rightarrow> Inl e
     | Inr w \<Rightarrow> run_session rv evs (session_start w))"

definition ar_device :: navigator where
  "ar_device = \<lparr>xr = Some \<lparr>supported = (\<lambda>mode. True)\<rparr>\<rparr>"

definition desktop_browser :: navigator where
  "desktop_browser = \<lparr>xr = None\<rparr>"

text \<open>A browser with the WebXR API whose answer to every capability query is no.\<close>

definition xr_without_ar :: navigator where
  "xr_without_ar = \<lparr>xr = Some \<lparr>supported = (\<lambda>mode. False)\<rparr>\<rparr>"

text \<open>
  The pose matrix of a surface point; a frame whose hit test returns results with the
  given poses; a frame whose hit test returns the given results; and a result that has
  no pose in the reference space.
\<close>

definition hit_at :: "real \<Rightarrow> real \<Rightarrow> real \<Rightarrow> real list" where
  "hit_at x y z = [1, 0, 0, 0, 0, 1, 0, 0, 0, 0, 1, 0, x, y, z, 1]"

definition frame_with :: "real list list \<Rightarrow> xr_frame" where
  "frame_with poses = \<lparr>getHitTestResults = (\<lambda>src. map (\<lambda>m. \<lparr>getPose = Some m\<rparr>) poses)\<rparr>"

definition frame_of_results :: "hit_test_result list \<Rightarrow> xr_frame" where
  "frame_of_results hits = \<lparr>getHitTestResults = (\<lambda>src. hits)\<rparr>"

definition hit_without_pose :: hit_test_result where
  "hit_without_pose = \<lparr>getPose = None\<rparr>"

text \<open>
  A page on which the bodies are built and a session is running: the hit-test source has
  arrived, the reticle is shown at the pose \<open>m\<close> and the select listener is registered.
\<close>

definition tracking_world :: "revision \<Rightarrow> real list \<Rightarrow> world" where
  "tracking_world rv m =
    (createSolarSystem rv (blank_page (\<lambda>i. 0)))
      \<lparr>reticle := \<lparr>visible = True, matrix = m\<rparr>,
       controls := Some \<lparr>minDistance = 2, maxDistance = 30, disposed = True\<rparr>,
       hitTestSource := Some 7,
       hitTestSourceRequested := True,
       session := Some \<lparr>hit_test_requests = 1, end_listeners = 1, select_listener = True\<rparr>\<rparr>"

subsection \<open>Invariants used in the proofs\<close>

definition phase_ok :: "mesh \<Rightarrow> bool" where
  "phase_ok m \<longleftrightarrow> 0 \<le> angle (userData m) \<and> angle (userData m) < 2 * pi"

definition builder_ok :: "nat \<Rightarrow> builder \<Rightarrow> bool" where
  "builder_ok n b \<longleftrightarrow>
    (case b of (g, ps, rnd) \<Rightarrow>
      n \<le> length ps \<and> (\<forall>i. 0 \<le> rnd i \<and> rnd i < 1) \<and>
      list_all phase_ok (body_meshes (children g)) \<and>
      list_all (\<lambda>p. phase_ok (child0 p)) (drop n ps))"

definition bodies_built :: "nat \<Rightarrow> builder \<Rightarrow> nat" where
  "bodies_built n b =
    (case b of (g, ps, rnd) \<Rightarrow> length (body_meshes (children g)) + (length ps - n))"

definition issued_once :: "world \<Rightarrow> bool" where
  "issued_once w \<longleftrightarrow>
    (case session w of
       None \<Rightarrow> False
     | Some s \<Rightarrow> hit_test_requests s = 0 \<or> (hit_test_requests s = 1 \<and> hitTestSourceRequested w))"

definition end_listener_ready :: "world \<Rightarrow> bool" where
  "end_listener_ready w \<longleftrightarrow>
    (case session w of
       None \<Rightarrow> False
     | Some s \<Rightarrow> \<not> hitTestSourceRequested w \<or> 0 < end_listeners s)"



text \<open>The frame's first result for the source in hand, if there is one, has a pose.\<close>

definition first_pose_known :: "xr_frame \<Rightarrow> world \<Rightarrow> bool" where
  "first_pose_known f w \<longleftrightarrow>
    (case hitTestSource w of
       None \<Rightarrow> True
     | Some src \<Rightarrow>
         (case getHitTestResults f src of
            [] \<Rightarrow> True
          | hit # _ \<Rightarrow> getPose hit \<noteq> None))"

section \<open>Properties\<close>

lemmas builders = created_bodies_def build_bodies_def planetConfig_def add_body_def new_group_def
  group_add_def new_mesh_def new_pivot_def set_position_x_def

lemmas inits = page_load_def blank_page_def init3D_def initAR_def teardown3D_def new_renderer_def
  createSolarSystem_def scene_add_def setAnimationLoop_def add_reticle_def add_ar_button_def
  start_click_def ar_check_def isSessionSupported_def alert_def identity_matrix_def

lemmas loops = renderAR_def request_hit_test_source_def track_reticle_def animate_orbits_def
  orbit_def orbit_and_spin_def animate_def invoke_def fromArray_def setFromMatrixPosition_def
  onSelect_def select_event_def source_resolved_def end_listener_def session_start_def
  session_end_def session_step_def attached_def

lemmas scenarios = placement_def pivot_angles_def ar_visit_def ar_device_def desktop_browser_def
  xr_without_ar_def hit_at_def frame_with_def frame_of_results_def hit_without_pose_def
  tracking_world_def

lemma upt16: "[0..<16] = [0, 1, 2, 3, 4, 5, 6, 7, 8, 9, 10, 11, 12, 13, 14, 15]"
  by (simp add: upt_rec)

lemma fromArray_nth: "i < 16 \<Longrightarrow> fromArray a ! i = a ! i"
  by (simp add: fromArray_def)

subsection \<open>Rounding to doubles\<close>

lemma floor_log2:
  assumes "2 powr of_int k \<le> x" and "x < 2 powr of_int (k + 1)"
  shows "\<lfloor>log 2 x\<rfloor> = k"
proof -
  have pos: "0 < x"
    using assms(1) powr_gt_zero [of 2 "of_int k"] by linarith
  have "of_int k \<le> log 2 x" using assms(1) pos by (simp add: le_log_iff)
  moreover have "log 2 x < of_int k + 1" using assms(2) pos by (simp add: log_less_iff)
  ultimately show ?thesis by linarith
qed

lemma ulp_in_binade:
  assumes "2 powr of_int k \<le> \<bar>x\<bar>" and "\<bar>x\<bar> < 2 powr of_int (k + 1)" and "- 1022 \<le> k"
  shows "ulp x = 2 powr of_int (k - 52)"
  using floor_log2 [OF assms(1,2)] assms(3) by (simp add: ulp_def)

lemma to_double_in_binade:
  assumes "2 powr of_int k \<le> \<bar>x\<bar>" and "\<bar>x\<bar> < 2 powr of_int (k + 1)" and "- 1022 \<le> k"
  shows "to_double x =
    of_int (round_half_even (x / 2 powr of_int (k - 52))) * 2 powr of_int (k - 52)"
proof -
  have "x \<noteq> 0"
    using assms(1) powr_gt_zero [of 2 "of_int k"] by auto
  then show ?thesis by (simp add: to_double_def ulp_in_binade [OF assms])
qed

lemma accumulate_numeral:
  "accumulate (numeral k) s a = accumulate (pred_numeral k) s (double_add a s)"
  by (simp add: numeral_eq_Suc)

text \<open>
  Mercury's speed and its double, and the first ten values of \<^verbatim>\<open>rotation.y += speed\<close>
  and of \<^verbatim>\<open>rotation.y += speed * 2\<close> from 0; the tenth are the doubles that print as
  0.19999999999999998 and 0.39999999999999997.
\<close>

lemma mercury_speed: "to_double (1 / 50) = 5764607523034235 / 288230376151711744"
  by (subst to_double_in_binade [of "-6"])
    (simp_all add: round_half_even_def powr_minus_divide Let_def)

lemma mercury_spin: "double_mul (5764607523034235 / 288230376151711744) 2 = 5764607523034235 / 144115188075855872"
  unfolding double_mul_def
  by (subst to_double_in_binade [of "-5"])
    (simp_all add: round_half_even_def powr_minus_divide Let_def)

lemma orbit_sum_1: "double_add 0 (5764607523034235 / 288230376151711744) = 5764607523034235 / 288230376151711744"
  unfolding double_add_def
  by (subst to_double_in_binade [of "-6"])
    (simp_all add: round_half_even_def powr_minus_divide Let_def)

lemma orbit_sum_2: "double_add (5764607523034235 / 288230376151711744) (5764607523034235 / 288230376151711744) = 5764607523034235 / 144115188075855872"
  unfolding double_add_def
  by (subst to_double_in_binade [of "-5"])
    (simp_all add: round_half_even_def powr_minus_divide Let_def)

lemma orbit_sum_3: "double_add (5764607523034235 / 144115188075855872) (5764607523034235 / 288230376151711744) = 1080863910568919 / 18014398509481984"
  unfolding double_add_def
  by (subst to_double_in_binade [of "-5"])
    (simp_all add: round_half_even_def powr_minus_divide Let_def)

lemma orbit_sum_4: "double_add (1080863910568919 / 18014398509481984) (5764607523034235 / 288230376151711744) = 5764607523034235 / 72057594037927936"
  unfolding double_add_def
  by (subst to_double_in_binade [of "-4"])
    (simp_all add: round_half_even_def powr_minus_divide Let_def)

lemma orbit_sum_5: "double_add (5764607523034235 / 72057594037927936) (5764607523034235 / 288230376151711744) = 3602879701896397 / 36028797018963968"
  unfolding double_add_def
  by (subst to_double_in_binade [of "-4"])
    (simp_all add: round_half_even_def powr_minus_divide Let_def)

lemma orbit_sum_6: "double_add (3602879701896397 / 36028797018963968) (5764607523034235 / 288230376151711744) = 8646911284551353 / 72057594037927936"
  unfolding double_add_def
  by (subst to_double_in_binade [of "-4"])
    (simp_all add: round_half_even_def powr_minus_divide Let_def)

lemma orbit_sum_7: "double_add (8646911284551353 / 72057594037927936) (5764607523034235 / 288230376151711744) = 1261007895663739 / 9007199254740992"
  unfolding double_add_def
  by (subst to_double_in_binade [of "-3"])
    (simp_all add: round_half_even_def powr_minus_divide Let_def)

lemma orbit_sum_8: "double_add (1261007895663739 / 9007199254740992) (5764607523034235 / 288230376151711744) = 5764607523034235 / 36028797018963968"
  unfolding double_add_def
  by (subst to_double_in_binade [of "-3"])
    (simp_all add: round_half_even_def powr_minus_divide Let_def)

lemma orbit_sum_9: "double_add (5764607523034235 / 36028797018963968) (5764607523034235 / 288230376151711744) = 3242591731706757 / 18014398509481984"
  unfolding double_add_def
  by (subst to_double_in_binade [of "-3"])
    (simp_all add: round_half_even_def powr_minus_divide Let_def)

lemma orbit_sum_10: "double_add (3242591731706757 / 18014398509481984) (5764607523034235 / 288230376151711744) = 7205759403792793 / 36028797018963968"
  unfolding double_add_def
  by (subst to_double_in_binade [of "-3"])
    (simp_all add: round_half_even_def powr_minus_divide Let_def)

lemma spin_sum_1: "double_add 0 (5764607523034235 / 144115188075855872) = 5764607523034235 / 144115188075855872"
  unfolding double_add_def
  by (subst to_double_in_binade [of "-5"])
    (simp_all add: round_half_even_def powr_minus_divide Let_def)

lemma spin_sum_2: "double_add (5764607523034235 / 144115188075855872) (5764607523034235 / 144115188075855872) = 5764607523034235 / 72057594037927936"
  unfolding double_add_def
  by (subst to_double_in_binade [of "-4"])
    (simp_all add: round_half_even_def powr_minus_divide Let_def)

lemma spin_sum_3: "double_add (5764607523034235 / 72057594037927936) (5764607523034235 / 144115188075855872) = 1080863910568919 / 9007199254740992"
  unfolding double_add_def
  by (subst to_double_in_binade [of "-4"])
    (simp_all add: round_half_even_def powr_minus_divide Let_def)

lemma spin_sum_4: "double_add (1080863910568919 / 9007199254740992) (5764607523034235 / 144115188075855872) = 5764607523034235 / 36028797018963968"
  unfolding double_add_def
  by (subst to_double_in_binade [of "-3"])
    (simp_all add: round_half_even_def powr_minus_divide Let_def)

lemma spin_sum_5: "double_add (5764607523034235 / 36028797018963968) (5764607523034235 / 144115188075855872) = 3602879701896397 / 18014398509481984"
  unfolding double_add_def
  by (subst to_double_in_binade [of "-3"])
    (simp_all add: round_half_even_def powr_minus_divide Let_def)

lemma spin_sum_6: "double_add (3602879701896397 / 18014398509481984) (5764607523034235 / 144115188075855872) = 8646911284551353 / 36028797018963968"
  unfolding double_add_def
  by (subst to_double_in_binade [of "-3"])
    (simp_all add: round_half_even_def powr_minus_divide Let_def)

lemma spin_sum_7: "double_add (8646911284551353 / 36028797018963968) (5764607523034235 / 144115188075855872) = 1261007895663739 / 4503599627370496"
  unfolding double_add_def
  by (subst to_double_in_binade [of "-2"])
    (simp_all add: round_half_even_def powr_minus_divide Let_def)

lemma spin_sum_8: "double_add (1261007895663739 / 4503599627370496) (5764607523034235 / 144115188075855872) = 5764607523034235 / 18014398509481984"
  unfolding double_add_def
  by (subst to_double_in_binade [of "-2"])
    (simp_all add: round_half_even_def powr_minus_divide Let_def)

lemma spin_sum_9: "double_add (5764607523034235 / 18014398509481984) (5764607523034235 / 144115188075855872) = 3242591731706757 / 9007199254740992"
  unfolding double_add_def
  by (subst to_double_in_binade [of "-2"])
    (simp_all add: round_half_even_def powr_minus_divide Let_def)

lemma spin_sum_10: "double_add (3242591731706757 / 9007199254740992) (5764607523034235 / 144115188075855872) = 7205759403792793 / 18014398509481984"
  unfolding double_add_def
  by (subst to_double_in_binade [of "-2"])
    (simp_all add: round_half_even_def powr_minus_divide Let_def)

lemmas mercury_sums = mercury_speed mercury_spin
  orbit_sum_1 orbit_sum_2 orbit_sum_3 orbit_sum_4 orbit_sum_5 orbit_sum_6 orbit_sum_7 orbit_sum_8 orbit_sum_9 orbit_sum_10
  spin_sum_1 spin_sum_2 spin_sum_3 spin_sum_4 spin_sum_5 spin_sum_6 spin_sum_7 spin_sum_8 spin_sum_9 spin_sum_10

lemma ten_additions:
  "accumulate 10 (to_double 0.02) 0 = 7205759403792793 / 36028797018963968"
  "accumulate 10 (double_mul (to_double 0.02) 2) 0 = 7205759403792793 / 18014398509481984"
  by (simp_all add: accumulate_numeral mercury_sums)

text \<open>Ten additions of the speed are not ten times the speed.\<close>

lemma ten_additions_round:
  "accumulate 10 (to_double 0.02) 0 \<noteq> 10 * to_double 0.02"
  by (simp add: accumulate_numeral mercury_sums)

subsection \<open>What the loop's blocks leave alone\<close>

lemma animate_orbits_keeps:
  "reticle (animate_orbits rv w) = reticle w"
  "hitTestSource (animate_orbits rv w) = hitTestSource w"
  "hitTestSourceRequested (animate_orbits rv w) = hitTestSourceRequested w"
  "session (animate_orbits rv w) = session w"
  "scene (animate_orbits rv w) = scene w"
  by (simp_all add: animate_orbits_def split: option.splits)

lemma request_keeps:
  "reticle (request_hit_test_source w) = reticle w"
  "hitTestSource (request_hit_test_source w) = hitTestSource w"
  "solarSystemGroup (request_hit_test_source w) = solarSystemGroup w"
  "planets (request_hit_test_source w) = planets w"
  "scene (request_hit_test_source w) = scene w"
  "(session (request_hit_test_source w) = None) = (session w = None)"
  by (simp_all add: request_hit_test_source_def split: option.splits)

lemma track_reticle_total:
  "session w \<noteq> None \<Longrightarrow> first_pose_known f w \<Longrightarrow> \<exists>w'. track_reticle f w = Inr w'"
  by (auto simp: track_reticle_def first_pose_known_def Let_def split: option.splits list.splits)

lemma renderAR_total:
  assumes "session w \<noteq> None" and "first_pose_known f w"
  shows "\<exists>w'. renderAR rv (Some f) w = Inr w'"
proof -
  have "session (request_hit_test_source w) \<noteq> None"
    using assms(1) by (simp add: request_keeps)
  moreover have "first_pose_known f (request_hit_test_source w)"
    using assms(2) by (simp add: first_pose_known_def request_keeps)
  ultimately show ?thesis
    using track_reticle_total [of "request_hit_test_source w" f]
    by (auto simp: renderAR_def)
qed

lemma renderAR_no_hit:
  assumes "hitTestSource w = Some src" and "getHitTestResults f src = []"
  shows "\<exists>w'. renderAR rv (Some f) w = Inr w' \<and> reticle w' = (reticle w)\<lparr>visible := False\<rparr>
           \<and> hitTestSource w' = Some src"
  using assms
  by (simp add: renderAR_def track_reticle_def request_keeps animate_orbits_keeps)

lemma renderAR_hit:
  assumes "hitTestSource w = Some src" and "getHitTestResults f src = h # hs"
    and "getPose h = Some m" and "session w = Some s"
  shows "\<exists>w'. renderAR rv (Some f) w = Inr w'
           \<and> reticle w' = (reticle w)\<lparr>visible := True, matrix := fromArray m\<rparr>
           \<and> hitTestSource w' = Some src \<and> session w' \<noteq> None"
proof -
  obtain s' where s': "session (request_hit_test_source w) = Some s'"
    using assms(4) request_keeps(6) [of w] by auto
  show ?thesis
    using assms(1,2,3) s'
    by (simp add: renderAR_def track_reticle_def request_keeps animate_orbits_keeps Let_def)
qed

lemma renderAR_lost_pose:
  assumes "hitTestSource w = Some src" and "getHitTestResults f src = h # hs"
    and "getPose h = None"
  shows "renderAR rv (Some f) w = Inl TypeError"
  using assms
  by (simp add: renderAR_def track_reticle_def request_keeps Let_def)

subsection \<open>Reticle tracking\<close>

text \<open>
  C2, as the code has it. While a session runs and the hit-test source has arrived, a
  frame whose hit test returns nothing hides the reticle; a frame whose hit test returns
  results, the first of which has a pose, shows the reticle and copies the sixteen
  entries of that pose into its matrix; and when a step has completed, running it again
  on the same frame completes and leaves the reticle as the first run left it. This
  holds in all three revisions.
\<close>

theorem reticle_tracks_first_hit:
  assumes "hitTestSource w = Some src" and "session w = Some s"
  shows "(getHitTestResults f src = [] \<longrightarrow>
            (\<exists>w'. renderAR rv (Some f) w = Inr w' \<and> \<not> visible (reticle w')))
       \<and> (\<forall>h hs m. getHitTestResults f src = h # hs \<and> getPose h = Some m \<longrightarrow>
            (\<exists>w'. renderAR rv (Some f) w = Inr w' \<and> visible (reticle w')
               \<and> (\<forall>i<16. matrix (reticle w') ! i = m ! i)))
       \<and> (\<forall>w'. renderAR rv (Some f) w = Inr w' \<longrightarrow>
            (\<exists>w''. renderAR rv (Some f) w' = Inr w'' \<and> reticle w'' = reticle w'))"
proof (cases "getHitTestResults f src")
  case Nil
  obtain w' where 1: "renderAR rv (Some f) w = Inr w'"
    "reticle w' = (reticle w)\<lparr>visible := False\<rparr>" "hitTestSource w' = Some src"
    using renderAR_no_hit [OF assms(1) Nil] by blast
  obtain w'' where 2: "renderAR rv (Some f) w' = Inr w''"
    "reticle w'' = (reticle w')\<lparr>visible := False\<rparr>"
    using renderAR_no_hit [OF 1(3) Nil] by blast
  from 1 2 Nil show ?thesis by simp
next
  case (Cons h hs)
  show ?thesis
  proof (cases "getPose h")
    case None
    from renderAR_lost_pose [OF assms(1) Cons None] Cons None show ?thesis by simp
  next
    case (Some m)
    obtain w' where 1: "renderAR rv (Some f) w = Inr w'"
      "reticle w' = (reticle w)\<lparr>visible := True, matrix := fromArray m\<rparr>"
      "hitTestSource w' = Some src" "session w' \<noteq> None"
      using renderAR_hit [OF assms(1) Cons Some assms(2)] by blast
    from 1(4) obtain s' where s': "session w' = Some s'" by auto
    obtain w'' where 2: "renderAR rv (Some f) w' = Inr w''"
      "reticle w'' = (reticle w')\<lparr>visible := True, matrix := fromArray m\<rparr>"
      using renderAR_hit [OF 1(3) Cons Some s'] by blast
    from 1 2 Cons Some show ?thesis by (simp add: fromArray_nth)
  qed
qed

theorem reticle_tracks_first_hit_witness:
  "hitTestSource (tracking_world RevC (hit_at 0 0 0)) = Some 7
 \<and> session (tracking_world RevC (hit_at 0 0 0))
      = Some \<lparr>hit_test_requests = 1, end_listeners = 1, select_listener = True\<rparr>
 \<and> (\<exists>w'. renderAR RevC (Some (frame_with [hit_at 1 2 3, hit_at 4 5 6]))
            (tracking_world RevC (hit_at 0 0 0)) = Inr w'
        \<and> visible (reticle w') \<and> matrix (reticle w') = hit_at 1 2 3)
 \<and> (\<exists>w'. renderAR RevC (Some (frame_with [])) (tracking_world RevC (hit_at 0 0 0)) = Inr w'
        \<and> \<not> visible (reticle w'))"
  using
    reticle_tracks_first_hit [of "tracking_world RevC (hit_at 0 0 0)" 7
      "\<lparr>hit_test_requests = 1, end_listeners = 1, select_listener = True\<rparr>"
      "frame_with [hit_at 1 2 3, hit_at 4 5 6]" RevC]
    reticle_tracks_first_hit [of "tracking_world RevC (hit_at 0 0 0)" 7
      "\<lparr>hit_test_requests = 1, end_listeners = 1, select_listener = True\<rparr>"
      "frame_with []" RevC]
  by (simp add: scenarios inits builders loops upt16)

text \<open>
  The claim as the specification words it, for every frame with a result, fails where
  the first result has no pose in the reference space: the step ends in a
  \<^verbatim>\<open>TypeError\<close> and the reticle's matrix is not written. Below, in each revision, the
  hit test returns two results, the nearest without a pose.
\<close>

theorem lost_pose_counterexample:
  "renderAR RevA (Some (frame_of_results [hit_without_pose, \<lparr>getPose = Some (hit_at 1 2 3)\<rparr>]))
     (tracking_world RevA (hit_at 0 0 0)) = Inl TypeError
 \<and> renderAR RevB (Some (frame_of_results [hit_without_pose, \<lparr>getPose = Some (hit_at 1 2 3)\<rparr>]))
     (tracking_world RevB (hit_at 0 0 0)) = Inl TypeError
 \<and> renderAR RevC (Some (frame_of_results [hit_without_pose, \<lparr>getPose = Some (hit_at 1 2 3)\<rparr>]))
     (tracking_world RevC (hit_at 0 0 0)) = Inl TypeError"
  by (simp add: scenarios inits builders loops)

subsection \<open>Placement\<close>

text \<open>
  C1, as the code has it. A select event delivered to the registered placement handler
  while the reticle is visible puts the group at the position held in entries 12 to 14
  of the reticle's matrix, attaches the group to the scene and hides the reticle. In
  \<open>RevB\<close> and \<open>RevC\<close> it also sets the group's scale to 0.3 on every axis; \<open>RevA\<close> leaves
  the scale as it was.
\<close>

theorem select_places_group:
  assumes "session w = Some s" and "select_listener s"
    and "visible (reticle w)" and "solarSystemGroup w = Some g"
  shows "\<exists>w' g'. select_event rv w = Inr w' \<and> solarSystemGroup w' = Some g'
           \<and> position g' =
               (matrix (reticle w) ! 12, matrix (reticle w) ! 13, matrix (reticle w) ! 14)
           \<and> scale g' = (if rv = RevA then scale g else (0.3, 0.3, 0.3))
           \<and> attached w' \<and> \<not> visible (reticle w')"
  using assms
  by (simp add: select_event_def onSelect_def Let_def setFromMatrixPosition_def attached_def
      scene_add_def)

theorem select_places_group_witness:
  "visible (reticle (tracking_world RevC (hit_at 1 2 3)))
 \<and> placement (select_event RevC (tracking_world RevC (hit_at 1 2 3)))
      = Some ((1, 2, 3), (0.3, 0.3, 0.3), True)
 \<and> placement (select_event RevA (tracking_world RevA (hit_at 1 2 3)))
      = Some ((1, 2, 3), (1, 1, 1), True)"
  using
    select_places_group [of "tracking_world RevC (hit_at 1 2 3)"
      "\<lparr>hit_test_requests = 1, end_listeners = 1, select_listener = True\<rparr>" _ RevC]
    select_places_group [of "tracking_world RevA (hit_at 1 2 3)"
      "\<lparr>hit_test_requests = 1, end_listeners = 1, select_listener = True\<rparr>" _ RevA]
  by (simp add: scenarios inits builders loops)

text \<open>
  The claim as the specification words it fails twice. In \<open>RevA\<close> a placement leaves
  the scale at 1. And in every revision the next frame with a hit shows the reticle
  again and registers the listener again, so a second select moves the group: below,
  from \<open>(1, 2, 3)\<close> to \<open>(4, 5, 6)\<close>. In each run the first frame issues the request
  for the hit-test source, which then arrives before the second frame.
\<close>

theorem single_fire_counterexample:
  "placement (ar_visit RevA ar_device (\<lambda>i. 0)
      [XRFrame (frame_with [hit_at 1 2 3]), SourceResolved 7,
       XRFrame (frame_with [hit_at 1 2 3]), Select])
     = Some ((1, 2, 3), (1, 1, 1), True)
 \<and> placement (ar_visit RevC ar_device (\<lambda>i. 0)
      [XRFrame (frame_with [hit_at 1 2 3]), SourceResolved 7,
       XRFrame (frame_with [hit_at 1 2 3]), Select])
     = Some ((1, 2, 3), (0.3, 0.3, 0.3), True)
 \<and> placement (ar_visit RevC ar_device (\<lambda>i. 0)
      [XRFrame (frame_with [hit_at 1 2 3]), SourceResolved 7,
       XRFrame (frame_with [hit_at 1 2 3]), Select,
       XRFrame (frame_with [hit_at 4 5 6]), Select])
     = Some ((4, 5, 6), (0.3, 0.3, 0.3), True)"
  by (simp add: scenarios inits builders loops upt16)

lemma second_select_moves_group:
  "placement (ar_visit rv ar_device (\<lambda>i. 0)
      [XRFrame (frame_with [hit_at 1 2 3]), SourceResolved 7,
       XRFrame (frame_with [hit_at 1 2 3]), Select,
       XRFrame (frame_with [hit_at 4 5 6]), Select])
     = Some ((4, 5, 6), (if rv = RevA then (1, 1, 1) else (0.3, 0.3, 0.3)), True)"
  by (cases rv) (simp_all add: scenarios inits builders loops upt16)

text \<open>
  C8. While the reticle is invisible a select event leaves the group as it is, its
  position and scale included, and the scene's children as they are, in all three
  revisions and whether or not the handler is registered.
\<close>

theorem select_while_hidden:
  assumes "\<not> visible (reticle w)"
  shows "\<exists>w'. select_event rv w = Inr w' \<and> solarSystemGroup w' = solarSystemGroup w
           \<and> scene w' = scene w \<and> attached w' = attached w"
  using assms
  by (simp add: select_event_def onSelect_def attached_def split: option.splits)

theorem select_while_hidden_witness:
  "\<not> visible (reticle ((tracking_world RevC (hit_at 1 2 3))
        \<lparr>reticle := \<lparr>visible = False, matrix = hit_at 1 2 3\<rparr>\<rparr>))
 \<and> placement (select_event RevC ((tracking_world RevC (hit_at 1 2 3))
        \<lparr>reticle := \<lparr>visible = False, matrix = hit_at 1 2 3\<rparr>\<rparr>))
      = Some ((0, 0, 0), (1, 1, 1), False)"
  using
    select_while_hidden [of "(tracking_world RevC (hit_at 1 2 3))
        \<lparr>reticle := \<lparr>visible = False, matrix = hit_at 1 2 3\<rparr>\<rparr>" RevC]
  by (simp add: scenarios inits builders loops)



subsection \<open>Orbital and axial angles\<close>













subsection \<open>The hit-test-source request\<close>

lemma track_reticle_requests:
  assumes "track_reticle f w = Inr w'"
  shows "map_option hit_test_requests (session w') = map_option hit_test_requests (session w)"
    and "hitTestSourceRequested w' = hitTestSourceRequested w"
    and "map_option end_listeners (session w') = map_option end_listeners (session w)"
  using assms
  by (auto simp: track_reticle_def Let_def split: option.splits list.splits)

lemma renderAR_requests:
  assumes "renderAR rv (Some f) w = Inr w'" and "session w = Some s"
  shows "hitTestSourceRequested w' \<and>
    (\<exists>s'. session w' = Some s' \<and>
       hit_test_requests s' =
         (if hitTestSourceRequested w then hit_test_requests s else Suc (hit_test_requests s)) \<and>
       end_listeners s' =
         (if hitTestSourceRequested w then end_listeners s else Suc (end_listeners s)))"
proof -
  from assms(1) obtain w1 where
    1: "track_reticle f (request_hit_test_source w) = Inr w1" and 2: "w' = animate_orbits rv w1"
    by (auto simp: renderAR_def split: sum.splits)
  note t = track_reticle_requests [OF 1]
  have r: "hitTestSourceRequested (request_hit_test_source w)"
    "session (request_hit_test_source w) =
       Some (if hitTestSourceRequested w then s
             else s\<lparr>hit_test_requests := Suc (hit_test_requests s),
                    end_listeners := Suc (end_listeners s)\<rparr>)"
    using assms(2) by (auto simp: request_hit_test_source_def)
  from t r 2 show ?thesis
    by (auto simp: animate_orbits_keeps split: if_splits)
qed

lemma select_event_requests:
  assumes "select_event rv w = Inr w'"
  shows "map_option hit_test_requests (session w') = map_option hit_test_requests (session w)"
    and "hitTestSourceRequested w' = hitTestSourceRequested w"
  using assms
  by (auto simp: select_event_def onSelect_def Let_def split: option.splits if_splits)

lemma session_step_issued_once:
  assumes "session_step rv ev w = Inr w'" and "issued_once w"
  shows "issued_once w'"
proof (cases ev)
  case (XRFrame f)
  from assms(2) obtain s where s: "session w = Some s"
    by (auto simp: issued_once_def split: option.splits)
  from assms(1) XRFrame have "renderAR rv (Some f) w = Inr w'"
    by (simp add: session_step_def)
  from renderAR_requests [OF this s] assms(2) s show ?thesis
    by (auto simp: issued_once_def split: if_splits)
next
  case Select
  with assms(1) have "select_event rv w = Inr w'" by (simp add: session_step_def)
  from select_event_requests [OF this] assms(2) show ?thesis
    by (auto simp: issued_once_def split: option.splits)
next
  case (SourceResolved src)
  with assms show ?thesis
    by (auto simp: session_step_def source_resolved_def issued_once_def split: option.splits)
qed

lemma run_session_issued_once:
  "run_session rv evs w = Inr w' \<Longrightarrow> issued_once w \<Longrightarrow> issued_once w'"
proof (induction evs arbitrary: w)
  case Nil
  then show ?case by simp
next
  case (Cons ev evs)
  then obtain w1 where 1: "session_step rv ev w = Inr w1" and 2: "run_session rv evs w1 = Inr w'"
    by (auto split: sum.splits)
  from Cons.IH [OF 2 session_step_issued_once [OF 1 Cons.prems(2)]] show ?case .
qed

lemma issued_once_start: "issued_once (session_start w)"
  by (simp add: issued_once_def session_start_def)

text \<open>Until the first frame nothing is requested and the flag stays clear.\<close>

lemma session_step_requested:
  assumes "session_step rv ev w = Inr w'" and "session w = Some s"
  shows "requests_issued w' =
           (if hitTestSourceRequested w \<or> \<not> (\<exists>f. ev = XRFrame f) then requests_issued w
            else Suc (requests_issued w))"
    and "hitTestSourceRequested w' = (hitTestSourceRequested w \<or> (\<exists>f. ev = XRFrame f))"
    and "session w' \<noteq> None"
proof -
  have "requests_issued w' =
           (if hitTestSourceRequested w \<or> \<not> (\<exists>f. ev = XRFrame f) then requests_issued w
            else Suc (requests_issued w))
     \<and> hitTestSourceRequested w' = (hitTestSourceRequested w \<or> (\<exists>f. ev = XRFrame f))
     \<and> session w' \<noteq> None"
  proof (cases ev)
    case (XRFrame f)
    with assms(1) have "renderAR rv (Some f) w = Inr w'" by (simp add: session_step_def)
    from renderAR_requests [OF this assms(2)] XRFrame assms(2) show ?thesis
      by (auto simp: requests_issued_def)
  next
    case Select
    with assms(1) have "select_event rv w = Inr w'" by (simp add: session_step_def)
    from select_event_requests [OF this] Select assms(2) show ?thesis
      by (auto simp: requests_issued_def split: option.splits)
  next
    case (SourceResolved src)
    with assms show ?thesis
      by (auto simp: session_step_def source_resolved_def requests_issued_def)
  qed
  then show "requests_issued w' =
           (if hitTestSourceRequested w \<or> \<not> (\<exists>f. ev = XRFrame f) then requests_issued w
            else Suc (requests_issued w))"
    and "hitTestSourceRequested w' = (hitTestSourceRequested w \<or> (\<exists>f. ev = XRFrame f))"
    and "session w' \<noteq> None" by blast+
qed

lemma run_session_first_frame:
  assumes "run_session rv evs w = Inr w'" and "session w \<noteq> None"
    and "\<not> hitTestSourceRequested w" and "\<exists>f. XRFrame f \<in> set evs"
  shows "requests_issued w' = Suc (requests_issued w)"
  using assms
proof (induction evs arbitrary: w)
  case Nil
  then show ?case by simp
next
  case (Cons ev evs)
  then obtain w1 where 1: "session_step rv ev w = Inr w1" and 2: "run_session rv evs w1 = Inr w'"
    by (auto split: sum.splits)
  from Cons.prems(2) obtain s where s: "session w = Some s" by auto
  note st = session_step_requested [OF 1 s]
  show ?case
  proof (cases "\<exists>f. ev = XRFrame f")
    case True
    with st Cons.prems(3) have a: "requests_issued w1 = Suc (requests_issued w)"
      and b: "hitTestSourceRequested w1" by simp_all
    have "requests_issued w' = requests_issued w1"
      using 2 b st(3)
    proof (induction evs arbitrary: w1)
      case Nil
      then show ?case by simp
    next
      case (Cons e es)
      then obtain w2 where 3: "session_step rv e w1 = Inr w2" and 4: "run_session rv es w2 = Inr w'"
        by (auto split: sum.splits)
      from Cons.prems(3) obtain s1 where s1: "session w1 = Some s1" by auto
      note st1 = session_step_requested [OF 3 s1]
      from st1 Cons.prems(2) have "requests_issued w2 = requests_issued w1"
        "hitTestSourceRequested w2" by simp_all
      with Cons.IH [OF 4 _ st1(3)] show ?case by simp
    qed
    with a show ?thesis by simp
  next
    case False
    with st Cons.prems(3) have a: "requests_issued w1 = requests_issued w"
      and b: "\<not> hitTestSourceRequested w1" by simp_all
    from False Cons.prems(4) have "\<exists>f. XRFrame f \<in> set evs" by auto
    from Cons.IH [OF 2 st(3) b this] a show ?thesis by simp
  qed
qed

text \<open>
  C5. In one session, whatever frames, select events and resolutions of the request
  arrive and in whatever order, the program starts at most one hit-test-source request;
  once one is started the flag is set, so no later frame starts another. When the flag
  was clear as the session began and a frame arrives, exactly one request is started.
\<close>

theorem request_issued_at_most_once:
  assumes "run_session rv evs (session_start w) = Inr w'"
  shows "requests_issued w' \<le> 1
     \<and> (requests_issued w' = 1 \<longrightarrow> hitTestSourceRequested w')
     \<and> (\<not> hitTestSourceRequested w \<and> (\<exists>f. XRFrame f \<in> set evs) \<longrightarrow> requests_issued w' = 1)"
proof -
  have a: "requests_issued w' \<le> 1 \<and> (requests_issued w' = 1 \<longrightarrow> hitTestSourceRequested w')"
    using run_session_issued_once [OF assms issued_once_start]
    by (auto simp: issued_once_def requests_issued_def split: option.splits)
  have b: "requests_issued w' = 1" if "\<not> hitTestSourceRequested w" "\<exists>f. XRFrame f \<in> set evs"
  proof -
    have "session (session_start w) \<noteq> None" "\<not> hitTestSourceRequested (session_start w)"
      "requests_issued (session_start w) = 0"
      using that(1) by (simp_all add: session_start_def requests_issued_def)
    with run_session_first_frame [OF assms _ _ that(2)] show ?thesis by simp
  qed
  from a b show ?thesis by blast
qed

theorem request_issued_at_most_once_witness:
  "\<not> hitTestSourceRequested (session_end (tracking_world RevC (hit_at 1 2 3)))
 \<and> (\<exists>w'. run_session RevC
        [XRFrame (frame_with []), XRFrame (frame_with []), SourceResolved 7,
         XRFrame (frame_with [hit_at 1 2 3]), Select, XRFrame (frame_with [hit_at 1 2 3])]
        (session_start (session_end (tracking_world RevC (hit_at 1 2 3)))) = Inr w'
      \<and> requests_issued w' = 1 \<and> hitTestSourceRequested w')"
proof -
  let ?w = "session_end (tracking_world RevC (hit_at 1 2 3))"
  let ?evs = "[XRFrame (frame_with []), XRFrame (frame_with []), SourceResolved 7,
         XRFrame (frame_with [hit_at 1 2 3]), Select, XRFrame (frame_with [hit_at 1 2 3])]"
  have f: "\<not> hitTestSourceRequested ?w"
    by (simp add: scenarios inits builders loops)
  obtain w' where r: "run_session RevC ?evs (session_start ?w) = Inr w'"
    by (simp add: scenarios inits builders loops upt16)
  have "\<exists>f. XRFrame f \<in> set ?evs" by auto
  with request_issued_at_most_once [OF r] f
  have "requests_issued w' = 1 \<and> hitTestSourceRequested w'" by blast
  with f r show ?thesis by blast
qed

text \<open>
  C6. When the end event fires on a session that carries the program's end listener, the
  hit-test source is cleared and the flag is reset, and the first frame of the session
  started next starts a hit-test-source request and sets the flag again.
\<close>

theorem session_end_resets:
  assumes "session w = Some s" and "0 < end_listeners s"
  shows "hitTestSource (session_end w) = None \<and> \<not> hitTestSourceRequested (session_end w)
    \<and> (\<exists>w'. renderAR rv (Some f) (session_start (session_end w)) = Inr w'
          \<and> requests_issued w' = 1 \<and> hitTestSourceRequested w')"
proof -
  let ?w0 = "session_start (session_end w)"
  have e: "hitTestSource (session_end w) = None" "\<not> hitTestSourceRequested (session_end w)"
    using assms by (simp_all add: session_end_def end_listener_def)
  have s0: "session ?w0 = Some \<lparr>hit_test_requests = 0, end_listeners = 0, select_listener = False\<rparr>"
    and f0: "\<not> hitTestSourceRequested ?w0"
    using e by (simp_all add: session_start_def)
  from s0 have "session ?w0 \<noteq> None" by simp
  moreover have "first_pose_known f ?w0"
    using e by (simp add: first_pose_known_def session_start_def)
  ultimately obtain w' where w': "renderAR rv (Some f) ?w0 = Inr w'"
    using renderAR_total by blast
  from renderAR_requests [OF w' s0] f0 have "hitTestSourceRequested w'" "requests_issued w' = 1"
    by (auto simp: requests_issued_def)
  with e w' show ?thesis by simp
qed

theorem session_end_resets_witness:
  "session (tracking_world RevC (hit_at 1 2 3))
     = Some \<lparr>hit_test_requests = 1, end_listeners = 1, select_listener = True\<rparr>
 \<and> hitTestSource (tracking_world RevC (hit_at 1 2 3)) = Some 7
 \<and> hitTestSourceRequested (tracking_world RevC (hit_at 1 2 3))
 \<and> hitTestSource (session_end (tracking_world RevC (hit_at 1 2 3))) = None
 \<and> \<not> hitTestSourceRequested (session_end (tracking_world RevC (hit_at 1 2 3)))
 \<and> (\<exists>w'. renderAR RevC (Some (frame_with []))
        (session_start (session_end (tracking_world RevC (hit_at 1 2 3)))) = Inr w'
      \<and> requests_issued w' = 1 \<and> hitTestSourceRequested w')"
proof -
  let ?w = "tracking_world RevC (hit_at 1 2 3)"
  have s: "session ?w = Some \<lparr>hit_test_requests = 1, end_listeners = 1, select_listener = True\<rparr>"
    and h: "hitTestSource ?w = Some 7" "hitTestSourceRequested ?w"
    by (simp_all add: scenarios inits)
  from session_end_resets [OF s, of RevC "frame_with []"] s h show ?thesis by simp
qed

text \<open>
  The listener is there whenever it is needed: in a session that began with the flag
  clear, the flag is set only once the end listener is registered, so the end of the
  session always leaves the flag clear for the next one.
\<close>

lemma select_event_end_listeners:
  assumes "select_event rv w = Inr w'"
  shows "map_option end_listeners (session w') = map_option end_listeners (session w)"
  using assms
  by (auto simp: select_event_def onSelect_def Let_def split: option.splits if_splits)

lemma session_step_end_listener:
  assumes "session_step rv ev w = Inr w'" and "end_listener_ready w"
  shows "end_listener_ready w'"
proof (cases ev)
  case (XRFrame f)
  from assms(2) obtain s where s: "session w = Some s"
    by (auto simp: end_listener_ready_def split: option.splits)
  from assms(1) XRFrame have "renderAR rv (Some f) w = Inr w'"
    by (simp add: session_step_def)
  from renderAR_requests [OF this s] assms(2) s show ?thesis
    by (auto simp: end_listener_ready_def split: if_splits)
next
  case Select
  with assms(1) have r: "select_event rv w = Inr w'" by (simp add: session_step_def)
  from select_event_end_listeners [OF r] select_event_requests(2) [OF r] assms(2) show ?thesis
    by (auto simp: end_listener_ready_def split: option.splits)
next
  case (SourceResolved src)
  with assms show ?thesis
    by (auto simp: session_step_def source_resolved_def end_listener_ready_def
        split: option.splits)
qed

lemma run_session_end_listener:
  "run_session rv evs w = Inr w' \<Longrightarrow> end_listener_ready w \<Longrightarrow> end_listener_ready w'"
proof (induction evs arbitrary: w)
  case Nil
  then show ?case by simp
next
  case (Cons ev evs)
  then obtain w1 where 1: "session_step rv ev w = Inr w1" and 2: "run_session rv evs w1 = Inr w'"
    by (auto split: sum.splits)
  from Cons.IH [OF 2 session_step_end_listener [OF 1 Cons.prems(2)]] show ?case .
qed

lemma session_end_clears_flag:
  assumes "run_session rv evs (session_start w) = Inr w'" and "\<not> hitTestSourceRequested w"
  shows "\<not> hitTestSourceRequested (session_end w')"
proof -
  have "end_listener_ready (session_start w)"
    using assms(2) by (simp add: end_listener_ready_def session_start_def)
  from run_session_end_listener [OF assms(1) this] show ?thesis
    by (auto simp: end_listener_ready_def session_end_def end_listener_def split: option.splits)
qed

text \<open>
  The flag is set in the step that issues the request, together with the end listener;
  the step completes unless the frame's first result has no pose.
\<close>

lemma request_sets_flag_in_step:
  assumes "session w = Some s" and "\<not> hitTestSourceRequested w"
  shows "first_pose_known f w \<longrightarrow> (\<exists>w'. renderAR rv (Some f) w = Inr w')"
    and "renderAR rv (Some f) w = Inr w' \<longrightarrow>
      hitTestSourceRequested w' \<and>
      (\<exists>s'. session w' = Some s' \<and> hit_test_requests s' = Suc (hit_test_requests s)
         \<and> end_listeners s' = Suc (end_listeners s))"
proof -
  from assms(1) have "session w \<noteq> None" by simp
  then show "first_pose_known f w \<longrightarrow> (\<exists>w'. renderAR rv (Some f) w = Inr w')"
    using renderAR_total by blast
  show "renderAR rv (Some f) w = Inr w' \<longrightarrow>
      hitTestSourceRequested w' \<and>
      (\<exists>s'. session w' = Some s' \<and> hit_test_requests s' = Suc (hit_test_requests s)
         \<and> end_listeners s' = Suc (end_listeners s))"
    using renderAR_requests [OF _ assms(1)] assms(2) by auto
qed

subsection \<open>The scene builder's phases\<close>

lemma body_meshes_append: "body_meshes (xs @ ys) = body_meshes xs @ body_meshes ys"
  by (induction xs rule: body_meshes.induct) auto

lemma set_position_x_userData: "userData (set_position_x d m) = userData m"
  by (simp add: set_position_x_def split: prod.splits)

lemma add_body_ok: "builder_ok n b \<Longrightarrow> builder_ok n (add_body rv b c)"
  by (cases b)
    (auto simp: builder_ok_def add_body_def Let_def group_add_def body_meshes_append
      new_pivot_def phase_ok_def set_position_x_userData new_mesh_def)

lemma add_body_built:
  "n \<le> length (fst (snd b)) \<Longrightarrow>
     bodies_built n (add_body rv b c) = Suc (bodies_built n b)
     \<and> n \<le> length (fst (snd (add_body rv b c)))"
  by (cases b)
    (auto simp: bodies_built_def add_body_def Let_def group_add_def body_meshes_append)

lemma foldl_add_body_ok: "builder_ok n b \<Longrightarrow> builder_ok n (foldl (add_body rv) b cs)"
  by (induction cs arbitrary: b) (auto simp: add_body_ok)

lemma foldl_add_body_built:
  "n \<le> length (fst (snd b)) \<Longrightarrow>
     bodies_built n (foldl (add_body rv) b cs) = bodies_built n b + length cs
     \<and> n \<le> length (fst (snd (foldl (add_body rv) b cs)))"
proof (induction cs arbitrary: b)
  case Nil
  then show ?case by simp
next
  case (Cons c cs)
  from add_body_built [OF Cons.prems, of rv c]
  have 1: "bodies_built n (add_body rv b c) = Suc (bodies_built n b)"
    and 2: "n \<le> length (fst (snd (add_body rv b c)))" by simp_all
  from Cons.IH [OF 2] 1 show ?case by simp
qed

lemma build_bodies_ok:
  assumes "\<forall>i. 0 \<le> rnd i \<and> rnd i < 1"
  shows "builder_ok (length ps) (build_bodies rv n ps rnd)"
proof -
  have "builder_ok (length ps) (new_group n, ps, rnd)"
    using assms by (simp add: builder_ok_def new_group_def)
  then have "builder_ok (length ps) (foldl (add_body rv) (new_group n, ps, rnd) (planetConfig rv))"
    by (rule foldl_add_body_ok)
  then show ?thesis
    by (auto simp: build_bodies_def builder_ok_def group_add_def body_meshes_append
        split: prod.splits)
qed

lemma build_bodies_built:
  "bodies_built (length ps) (build_bodies rv n ps rnd) = length (planetConfig rv)
   \<and> length ps \<le> length (fst (snd (build_bodies rv n ps rnd)))"
proof -
  have "length ps \<le> length (fst (snd (new_group n, ps, rnd)))" by simp
  from foldl_add_body_built [OF this, of rv "planetConfig rv"] show ?thesis
    by (auto simp: build_bodies_def bodies_built_def new_group_def group_add_def
        body_meshes_append split: prod.splits)
qed

text \<open>
  C9. Whatever numbers in \<open>[0, 1)\<close> the random source yields, one run of the scene
  builder creates one body per configuration entry, the Sun included, and gives each a
  phase \<open>angle\<close> in \<open>[0, 2 pi)\<close>. This holds in all three revisions.
\<close>

theorem initial_phase_in_range:
  assumes "\<forall>i. 0 \<le> rnd i \<and> rnd i < 1"
  shows "length (created_bodies rv n ps rnd) = length (planetConfig rv)
     \<and> (\<forall>m \<in> set (created_bodies rv n ps rnd).
           0 \<le> angle (userData m) \<and> angle (userData m) < 2 * pi)"
  using build_bodies_ok [OF assms, of ps rv n] build_bodies_built [of ps rv n rnd]
  by (auto simp: created_bodies_def builder_ok_def bodies_built_def list_all_iff phase_ok_def
      split: prod.splits)

theorem initial_phase_in_range_witness:
  "(\<forall>i::nat. (0::real) \<le> 1 / 2 \<and> (1 / 2 :: real) < 1)
 \<and> length (created_bodies RevA 0 [] (\<lambda>i. 1 / 2)) = 5
 \<and> list_all phase_ok (created_bodies RevA 0 [] (\<lambda>i. 1 / 2))
 \<and> map (angle \<circ> userData) (created_bodies RevA 0 [] (\<lambda>i. 1 / 2)) = [pi, pi, pi, pi, pi]"
proof -
  have 1: "\<forall>i::nat. (0::real) \<le> (\<lambda>i. 1 / 2) i \<and> (\<lambda>i. 1 / 2 :: real) i < 1" by simp
  from initial_phase_in_range [OF 1, of RevA 0 "[]"]
  have "length (created_bodies RevA 0 [] (\<lambda>i. 1 / 2)) = 5"
    and "list_all phase_ok (created_bodies RevA 0 [] (\<lambda>i. 1 / 2))"
    by (simp_all add: list_all_iff phase_ok_def planetConfig_def)
  moreover have "map (angle \<circ> userData) (created_bodies RevA 0 [] (\<lambda>i. 1 / 2)) = [pi, pi, pi, pi, pi]"
    by (simp add: builders)
  ultimately show ?thesis by simp
qed

text \<open>The bodies counted above are those \<^verbatim>\<open>createSolarSystem\<close> leaves on the page.\<close>

lemma createSolarSystem_bodies:
  "createSolarSystem rv w = w' \<Longrightarrow>
     (case solarSystemGroup w' of None \<Rightarrow> [] | Some g \<Rightarrow> body_meshes (children g))
       @ map child0 (drop (length (planets w)) (planets w'))
     = created_bodies rv (groups_made w) (planets w) (random w)"
  by (auto simp: createSolarSystem_def created_bodies_def split: prod.splits)

subsection \<open>The start button and the mode switch\<close>

text \<open>The handler never reads the answer of the capability query, only whether the API exists.\<close>

lemma start_click_ignores_answer:
  "xr nav = Some x \<Longrightarrow> xr nav' = Some x' \<Longrightarrow> start_click rv nav w = start_click rv nav' w"
  by (simp add: start_click_def ar_check_def isSessionSupported_def split: revision.splits)

lemma absent_api_falls_back:
  assumes "xr nav = None"
  shows "start_click RevB nav w =
           Inr (init3D RevB (alert (fallback_message RevB)
             (w\<lparr>overlay_hidden := True, container_visible := True\<rparr>)))"
    and "start_click RevC nav w =
           Inr (init3D RevC ((alert (fallback_message RevC) w)\<lparr>overlay_hidden := True\<rparr>))"
  using assms by (simp_all add: start_click_def ar_check_def)

text \<open>
  C4 does not hold of the code. On a browser that has the WebXR API and answers that AR
  is unsupported, the start button in \<open>RevB\<close> and \<open>RevC\<close> shows no message and
  initialises the AR view: the second renderer runs the AR loop and the container holds
  its canvas and the AR button.
\<close>

theorem unsupported_answer_starts_ar:
  "(\<exists>w. start_click RevC xr_without_ar (page_load RevC rnd) = Inr w \<and> alerts w = []
        \<and> map animationLoop (renderers w) = [None, Some RenderAR]
        \<and> container w = [Canvas 1, ARButton 1])
 \<and> (\<exists>w. start_click RevB xr_without_ar (page_load RevB rnd) = Inr w \<and> alerts w = []
        \<and> map animationLoop (renderers w) = [None, Some RenderAR]
        \<and> container w = [Canvas 1, ARButton 1])"
  by (simp add: scenarios inits builders)

text \<open>
  C7 does not hold of the code. The page starts in the desktop view; on a browser
  without the WebXR API the start button initialises the desktop view a second time
  without removing the first canvas or clearing the first renderer's loop, so two
  canvases are attached and two loops are registered.
\<close>

theorem fallback_keeps_first_surface:
  "(\<exists>w. start_click RevC desktop_browser (page_load RevC rnd) = Inr w
        \<and> surfaces_attached w = 2 \<and> callbacks_registered w = 2)
 \<and> (\<exists>w. start_click RevB desktop_browser (page_load RevB rnd) = Inr w
        \<and> surfaces_attached w = 2 \<and> callbacks_registered w = 2)"
  by (simp add: scenarios inits builders surfaces_attached_def callbacks_registered_def)

text \<open>The switch from the desktop view to the AR view does tear the desktop view down.\<close>

lemma page_load_one_surface:
  "rv \<noteq> RevA \<Longrightarrow>
     surfaces_attached (page_load rv rnd) = 1 \<and> callbacks_registered (page_load rv rnd) = 1"
  by (cases rv)
    (simp_all add: scenarios inits builders surfaces_attached_def callbacks_registered_def)

lemma ar_switch_is_exclusive:
  "(\<exists>w. start_click RevC ar_device (page_load RevC rnd) = Inr w
        \<and> surfaces_attached w = 1 \<and> callbacks_registered w = 1)
 \<and> (\<exists>w. start_click RevB ar_device (page_load RevB rnd) = Inr w
        \<and> surfaces_attached w = 1 \<and> callbacks_registered w = 1)"
  by (simp add: scenarios inits builders surfaces_attached_def callbacks_registered_def)

end
